theory Spec2Isabelle
  imports Main "HOL-Library.Sublist"
begin

section \<open>Medical RAG assistant: the answer pipeline of \<^verbatim>\<open>app.py\<close>\<close>

text \<open>
  The application is one Python script. Its two functions, \<^verbatim>\<open>initialize_rag_system\<close>
  and \<^verbatim>\<open>generate_medical_answer\<close>, and the part of the script body that answers a
  question and keeps the history are embedded here. Everything outside the script is a
  parameter: the generation backend (\<^verbatim>\<open>google.generativeai\<close>), the construction of
  \<^verbatim>\<open>MedicalRAGSystem\<close>, its method \<^verbatim>\<open>retrieve_similar_chunks\<close>, the widgets' values
  and the clock.
\<close>

subsection \<open>Data\<close>

text \<open>
  A Python exception that \<^verbatim>\<open>except Exception as e\<close> catches; the script only ever
  reads \<^verbatim>\<open>str(e)\<close>.
\<close>

datatype exn = Exception (str: string)

text \<open>
  A retrieved chunk is a dict with the keys \<^verbatim>\<open>content\<close>, \<^verbatim>\<open>metadata\<close> (itself a dict, of
  which the script reads \<^verbatim>\<open>medical_specialty\<close>) and \<^verbatim>\<open>similarity_score\<close>. The score is a
  float that the script only formats for display; its type is left open.
\<close>

record chunk_metadata =
  medical_specialty :: string

record 's chunk =
  content :: string
  metadata :: chunk_metadata
  similarity_score :: 's

subsection \<open>The generation backend\<close>

text \<open>
  Lines 75 to 78 configure the client with the API key, build the model
  \<^verbatim>\<open>models/gemini-2.0-flash\<close>, send the prompt and read \<^verbatim>\<open>response.text\<close>. The backend
  is the outcome of that sequence as a function of the key, the model name and the prompt:
  \<open>Inr\<close> the response text, or \<open>Inl\<close> the exception one of the four steps raised.
  The calls a run issues are collected in a trace.
\<close>

type_synonym backend = "string \<Rightarrow> string \<Rightarrow> string \<Rightarrow> exn + string"

datatype call = GenerateContent (call_api_key: string) (call_model: string) (call_prompt: string)

definition model_name :: string where
  "model_name = ''models/gemini-2.0-flash''"

subsection \<open>Building the prompt\<close>

text \<open>\<^verbatim>\<open>str(n)\<close> for a non-negative integer: its decimal digits.\<close>

fun str_nat :: "nat \<Rightarrow> string" where
  "str_nat n =
     (if n < 10 then [char_of (48 + n)]
      else str_nat (n div 10) @ [char_of (48 + n mod 10)])"

declare str_nat.simps [simp del]

text \<open>Reading a decimal numeral back, to state that \<open>str_nat\<close> writes the number it is given.\<close>

definition decimal :: "string \<Rightarrow> nat" where
  "decimal ds = foldl (\<lambda>acc c. 10 * acc + (of_char c - 48)) 0 ds"

text \<open>\<^verbatim>\<open>sep.join(parts)\<close>.\<close>

fun join :: "string \<Rightarrow> string list \<Rightarrow> string" where
  "join sep [] = []"
| "join sep [x] = x"
| "join sep (x # y # ys) = x @ sep @ join sep (y # ys)"

text \<open>The f-string of line 53, for the chunk at index \<open>i\<close> of \<^verbatim>\<open>enumerate\<close>.\<close>

definition medical_note :: "nat \<Rightarrow> 's chunk \<Rightarrow> string" where
  "medical_note i chunk =
     ''--- MEDICAL NOTE '' @ str_nat (i + 1) @ '' (Specialty: ''
       @ medical_specialty (metadata chunk) @ '') ---\<newline>'' @ content chunk"

definition context_text :: "'s chunk list \<Rightarrow> string" where
  "context_text context_chunks =
     join ''\<newline>\<newline>''
       (map (\<lambda>(i, chunk). medical_note i chunk) (enumerate 0 context_chunks))"

definition prompt_head :: string where
  "prompt_head =
     ''You are a medical research assistant. Answer the question based ONLY on the provided medical context from clinical notes.\<newline>''
     @ ''\<newline>''
     @ ''MEDICAL CONTEXT:\<newline>''"

definition prompt_question :: string where
  "prompt_question = ''\<newline>\<newline>QUESTION: ''"

definition prompt_instructions :: string where
  \<open>prompt_instructions =
     ''\<newline>''
     @ ''\<newline>''
     @ ''IMPORTANT INSTRUCTIONS:\<newline>''
     @ ''- Answer using ONLY the information from the medical context above\<newline>''
     @ ''- If the context doesn't contain relevant information, say "I cannot find specific information about this in the available medical records"\<newline>''
     @ ''- Be precise and medically accurate\<newline>''
     @ ''- Do not make up or hallucinate information\<newline>''
     @ ''- Mention which medical specialty the information comes from when relevant\<newline>''
     @ ''- Keep answers concise but informative\<newline>''
     @ ''\<newline>''
     @ ''ANSWER:''\<close>

definition build_prompt :: "string \<Rightarrow> 's chunk list \<Rightarrow> string" where
  "build_prompt query context_chunks =
     prompt_head @ context_text context_chunks @ prompt_question @ query @ prompt_instructions"

subsection \<open>\<^verbatim>\<open>generate_medical_answer\<close>\<close>

definition no_context_answer :: string where
  "no_context_answer =
     ''I couldn't find relevant medical information to answer this question in the available records.''"

definition error_prefix :: string where
  "error_prefix = ''Error generating answer: ''"

text \<open>
  The function returns a Python \<^verbatim>\<open>str\<close> on every path. The second component is the trace
  of backend calls the invocation issued.
\<close>

definition generate_medical_answer ::
  "backend \<Rightarrow> string \<Rightarrow> 's chunk list \<Rightarrow> string \<Rightarrow> string \<times> call list" where
  "generate_medical_answer genai query context_chunks api_key =
     (if context_chunks = [] then (no_context_answer, [])
      else
        let prompt = build_prompt query context_chunks
        in (case genai api_key model_name prompt of
              Inr text \<Rightarrow> text
            | Inl e \<Rightarrow> error_prefix @ str e,
            [GenerateContent api_key model_name prompt]))"

subsection \<open>\<^verbatim>\<open>initialize_rag_system\<close>\<close>

text \<open>
  The \<^verbatim>\<open>try\<close> block imports \<^verbatim>\<open>medical_rag_system\<close> and constructs
  \<^verbatim>\<open>MedicalRAGSystem()\<close>. Its outcome is the parameter \<open>construct\<close>: \<open>Inr\<close> the object, or
  \<open>Inl\<close> the exception that the import or the constructor raised. The function returns
  a pair, \<^verbatim>\<open>None\<close> being \<open>None\<close>.
\<close>

definition init_error_prefix :: string where
  "init_error_prefix = ''Error initializing RAG system: ''"

definition initialize_rag_system :: "exn + 'h \<Rightarrow> 'h option \<times> string option" where
  "initialize_rag_system construct =
     (case construct of
        Inr rag_system \<Rightarrow> (Some rag_system, None)
      | Inl e \<Rightarrow> (None, Some (init_error_prefix @ str e)))"

subsection \<open>The history and its recent view\<close>

type_synonym timestamp = int

text \<open>The dict appended to \<^verbatim>\<open>st.session_state.history\<close> at lines 141 to 146.\<close>

record answer_record =
  query :: string
  answer :: string
  chunks_used :: nat
  timestamp :: timestamp

text \<open>
  The Python slice \<^verbatim>\<open>xs[i:]\<close>: a negative start counts from the end, and a start
  outside the list is clamped to it.
\<close>

definition slice_from :: "'a list \<Rightarrow> int \<Rightarrow> 'a list" where
  "slice_from xs i =
     (let n = int (length xs);
          start = (if i < 0 then max (n + i) 0 else min i n)
      in drop (nat start) xs)"

text \<open>Line 160: \<^verbatim>\<open>reversed(st.session_state.history[-3:])\<close>.\<close>

definition recent_questions :: "answer_record list \<Rightarrow> answer_record list" where
  "recent_questions hist = rev (slice_from hist (- 3))"

subsection \<open>The script body\<close>

text \<open>
  The object held in \<^verbatim>\<open>st.session_state.rag_system\<close>; the script calls its method
  \<^verbatim>\<open>retrieve_similar_chunks(query, k=num_chunks)\<close>, which returns the list of chunks or
  raises.
\<close>

record 's MedicalRAGSystem =
  retrieve_similar_chunks :: "string \<Rightarrow> int \<Rightarrow> exn + 's chunk list"

text \<open>
  \<^verbatim>\<open>st.session_state\<close>. A key that is absent reads as \<open>None\<close> for \<^verbatim>\<open>rag_system\<close> and
  \<^verbatim>\<open>api_key\<close> (lines 118, 119 and 136) and as the empty list for \<^verbatim>\<open>history\<close> (lines 120
  and 121 set it before it is read).
\<close>

record 's session_state =
  rag_system :: "'s MedicalRAGSystem option"
  api_key :: "string option"
  history :: "answer_record list"

text \<open>The values of the widgets in one run of the script.\<close>

record widgets =
  api_key_input :: string
  initialize_clicked :: bool
  query_input :: string
  num_chunks :: int

text \<open>What one run writes to the page: the answer, if one was produced, and the recent questions.\<close>

record page =
  shown_answer :: "string option"
  shown_recent :: "answer_record list"

text \<open>Lines 102 to 116: the button of the sidebar.\<close>

definition sidebar ::
  "exn + 's MedicalRAGSystem \<Rightarrow> widgets \<Rightarrow> 's session_state \<Rightarrow> 's session_state" where
  "sidebar construct w s =
     (if initialize_clicked w then
        (if api_key_input w = [] then s
         else
           (case initialize_rag_system construct of
              (Some rag, error) \<Rightarrow> s\<lparr>rag_system := Some rag, api_key := Some (api_key_input w)\<rparr>
            | (None, error) \<Rightarrow> s))
      else s)"

text \<open>
  Lines 123 to 167. An exception of \<^verbatim>\<open>retrieve_similar_chunks\<close> is not caught: it ends the
  run (\<open>Inl\<close>) before the history is touched.
\<close>

definition question_answer ::
  "backend \<Rightarrow> timestamp \<Rightarrow> widgets \<Rightarrow> 's session_state \<Rightarrow> 's session_state \<times> (exn + page)" where
  "question_answer genai now w s =
     (let idle = (s, Inr \<lparr>shown_answer = None, shown_recent = recent_questions (history s)\<rparr>)
      in case rag_system s of
           None \<Rightarrow> (s, Inr \<lparr>shown_answer = None, shown_recent = []\<rparr>)
         | Some rag \<Rightarrow>
             (case api_key s of
                None \<Rightarrow> idle
              | Some key \<Rightarrow>
                  if query_input w \<noteq> [] \<and> key \<noteq> [] then
                    (case retrieve_similar_chunks rag (query_input w) (num_chunks w) of
                       Inl e \<Rightarrow> (s, Inl e)
                     | Inr chunks \<Rightarrow>
                         let answer = fst (generate_medical_answer genai (query_input w) chunks key);
                             s' = s\<lparr>history := history s @
                                    [\<lparr>query = query_input w, answer = answer,
                                      chunks_used = length chunks, timestamp = now\<rparr>]\<rparr>
                         in (s', Inr \<lparr>shown_answer = Some answer,
                                      shown_recent = recent_questions (history s')\<rparr>))
                  else idle))"

definition script_run ::
  "exn + 's MedicalRAGSystem \<Rightarrow> backend \<Rightarrow> timestamp \<Rightarrow> widgets \<Rightarrow> 's session_state
     \<Rightarrow> 's session_state \<times> (exn + page)" where
  "script_run construct genai now w s = question_answer genai now w (sidebar construct w s)"

section \<open>The retriever\<close>

text \<open>
  Modelled from the spec: the class \<^verbatim>\<open>MedicalRAGSystem\<close> and its method
  \<^verbatim>\<open>retrieve_similar_chunks\<close> live in the module \<^verbatim>\<open>medical_rag_system\<close>, which the
  script imports and which is not among the sources. The definitions of this section follow
  the specification's data model (\<open>Chunk\<close>, \<open>ChunkMetadata\<close>, \<open>EmbeddingIndex\<close>,
  \<open>RetrievalResult\<close>) and its contract of \<open>retrieve\<close>: the results are the \<open>k\<close> chunks
  nearest to the query vector, in descending similarity, ties in the order the chunks were
  inserted, joined with the metadata at the same position; the call fails with
  \<open>RetrieverError\<close> when the query vector has not the dimension of the index. The index
  is opaque in the specification: the similarity of two vectors is the parameter \<open>sim\<close>,
  with values in any linear order.
\<close>

record Chunk =
  chunk_no :: int
  chunk_content :: string

record ChunkMetadata =
  chunk_id :: int
  chunk_specialty :: string
  source_record_id :: int

record 'x CorpusStore =
  chunks :: "Chunk list"
  chunks_metadata :: "ChunkMetadata list"
  index_vectors :: "'x list list"
  vector_dimension :: nat

record 's RetrievalResult =
  result_content :: string
  result_metadata :: ChunkMetadata
  result_similarity_score :: 's

datatype retriever_error = RetrieverError

definition chunk_count :: "'x CorpusStore \<Rightarrow> nat" where
  "chunk_count store = length (chunks store)"

text \<open>
  Modelled from the spec: the invariant that \<open>load\<close> checks, one metadata record and one
  vector per chunk.
\<close>

definition counts_match :: "'x CorpusStore \<Rightarrow> bool" where
  "counts_match store \<longleftrightarrow>
     length (index_vectors store) = length (chunks store) \<and>
     length (chunks_metadata store) = length (chunks store)"

text \<open>
  Modelled from the spec: the ranking of the index, which is not among the sources. An
  element goes in front of the first one that does not score higher than it, so among equal
  scores the one inserted earlier stays first.
\<close>

fun insert_ranked :: "('a \<Rightarrow> 's::linorder) \<Rightarrow> 'a \<Rightarrow> 'a list \<Rightarrow> 'a list" where
  "insert_ranked f x [] = [x]"
| "insert_ranked f x (y # ys) =
     (if f y \<le> f x then x # y # ys else y # insert_ranked f x ys)"

fun ranked :: "('a \<Rightarrow> 's::linorder) \<Rightarrow> 'a list \<Rightarrow> 'a list" where
  "ranked f [] = []"
| "ranked f (x # xs) = insert_ranked f x (ranked f xs)"

text \<open>
  Modelled from the spec: \<open>retrieve(query_vector, k)\<close>, which is not among the sources.
  The contract asks for \<open>k \<ge> 1\<close> and says nothing of a smaller \<open>k\<close>, for which this
  definition returns no result.
\<close>

definition retrieve ::
  "('x list \<Rightarrow> 'x list \<Rightarrow> 's::linorder) \<Rightarrow> 'x CorpusStore \<Rightarrow> 'x list \<Rightarrow> int
     \<Rightarrow> retriever_error + 's RetrievalResult list" where
  "retrieve sim store query_vector k =
     (if vector_dimension store \<noteq> length query_vector then Inl RetrieverError
      else
        let score = (\<lambda>i. sim query_vector (index_vectors store ! i));
            nearest = take (nat k) (ranked score [0..<length (index_vectors store)])
        in Inr (map (\<lambda>i. \<lparr>result_content = chunk_content (chunks store ! i),
                            result_metadata = chunks_metadata store ! i,
                            result_similarity_score = score i\<rparr>) nearest))"

section \<open>Example values\<close>

definition note_allergy :: "int chunk" where
  "note_allergy =
     \<lparr>content = ''Seasonal allergic rhinitis, treated with antihistamines.'',
      metadata = \<lparr>medical_specialty = ''Allergy / Immunology''\<rparr>,
      similarity_score = 2\<rparr>"

definition note_asthma :: "int chunk" where
  "note_asthma =
     \<lparr>content = ''Wheezing at night, started on an inhaled steroid.'',
      metadata = \<lparr>medical_specialty = ''Pulmonology''\<rparr>,
      similarity_score = 1\<rparr>"

definition timeout_backend :: backend where
  "timeout_backend key model prompt = Inl (Exception ''timeout'')"

definition error_text_backend :: backend where
  "error_text_backend key model prompt = Inr ''Error generating answer: timeout''"

definition echo_backend :: backend where
  "echo_backend key model prompt = Inr ''Antihistamines are the usual treatment.''"

definition fixed_retrieve :: "string \<Rightarrow> int \<Rightarrow> exn + int chunk list" where
  "fixed_retrieve q k = Inr [note_allergy]"

definition ready_state :: "int session_state" where
  "ready_state =
     \<lparr>rag_system = Some \<lparr>retrieve_similar_chunks = fixed_retrieve\<rparr>,
      api_key = Some ''secret'',
      history = []\<rparr>"

definition asking :: widgets where
  "asking =
     \<lparr>api_key_input = ''secret'', initialize_clicked = False,
      query_input = ''treatment for allergy'', num_chunks = 3\<rparr>"

definition first_record :: answer_record where
  "first_record = \<lparr>query = ''first'', answer = ''one'', chunks_used = 3, timestamp = 10\<rparr>"

definition second_record :: answer_record where
  "second_record = \<lparr>query = ''second'', answer = ''two'', chunks_used = 2, timestamp = 20\<rparr>"

text \<open>A corpus of three chunks with vectors of dimension 1, and a similarity on such vectors.\<close>

definition closeness :: "int list \<Rightarrow> int list \<Rightarrow> int" where
  "closeness u v = - sum_list (map (\<lambda>(a, b). \<bar>a - b\<bar>) (zip u v))"

definition small_corpus :: "int CorpusStore" where
  "small_corpus =
     \<lparr>chunks =
        [\<lparr>chunk_no = 0, chunk_content = ''a''\<rparr>,
         \<lparr>chunk_no = 1, chunk_content = ''b''\<rparr>,
         \<lparr>chunk_no = 2, chunk_content = ''c''\<rparr>],
      chunks_metadata =
        [\<lparr>chunk_id = 0, chunk_specialty = ''Cardiology'', source_record_id = 7\<rparr>,
         \<lparr>chunk_id = 1, chunk_specialty = ''Neurology'', source_record_id = 7\<rparr>,
         \<lparr>chunk_id = 2, chunk_specialty = ''Cardiology'', source_record_id = 9\<rparr>],
      index_vectors = [[5], [1], [3]],
      vector_dimension = 1\<rparr>"

section \<open>Properties\<close>

subsection \<open>Auxiliary facts\<close>

lemma decimal_str_nat: "decimal (str_nat n) = n"
proof (induction n rule: str_nat.induct)
  case (1 n)
  show ?case
  proof (cases "n < 10")
    case True
    then show ?thesis
      by (subst str_nat.simps) (simp add: decimal_def)
  next
    case False
    with "1" have "decimal (str_nat (n div 10)) = n div 10" by simp
    with False show ?thesis
      by (subst str_nat.simps) (simp add: decimal_def)
  qed
qed

lemma head_grounds:
  "sublist ''Answer the question based ONLY on the provided medical context'' prompt_head"
  by code_simp

lemma instructions_no_fabrication:
  "sublist ''- Do not make up or hallucinate information'' prompt_instructions"
  by code_simp

lemma instructions_cite_specialty:
  "sublist ''- Mention which medical specialty the information comes from when relevant''
     prompt_instructions"
  by code_simp

lemma notes_nth:
  assumes "i < length cs"
  shows "map (\<lambda>(i, chunk). medical_note i chunk) (enumerate 0 cs) ! i = medical_note i (cs ! i)"
  using assms by (simp add: nth_enumerate_eq)

lemma join_as_concat:
  "parts \<noteq> [] \<Longrightarrow> join sep parts = hd parts @ concat (map ((@) sep) (tl parts))"
  by (induction sep parts rule: join.induct) simp_all

lemma digit_chars: "\<forall>k\<in>set [0..<10]. char_of (48 + k) \<in> set ''0123456789''"
  by code_simp

lemma nonzero_digit_chars: "\<forall>k\<in>set [1..<10]. char_of (48 + k) \<noteq> CHR ''0''"
  by code_simp

lemma digit_char:
  assumes "(k::nat) < 10"
  shows "char_of (48 + k) \<in> set ''0123456789''"
proof -
  from assms have "k \<in> set [0..<10]" by simp
  with digit_chars show ?thesis by blast
qed

lemma nonzero_digit_char:
  assumes "0 < (k::nat)" and "k < 10"
  shows "char_of (48 + k) \<noteq> CHR ''0''"
proof -
  from assms have "k \<in> set [1..<10]" by simp
  with nonzero_digit_chars show ?thesis by blast
qed

lemma str_nat_nonempty: "str_nat n \<noteq> []"
  by (subst str_nat.simps) simp

lemma str_nat_digits: "set (str_nat n) \<subseteq> set ''0123456789''"
proof (induction n rule: str_nat.induct)
  case (1 n)
  show ?case
  proof (cases "n < 10")
    case True
    then show ?thesis
      using digit_char [of n] by (subst str_nat.simps) simp
  next
    case False
    with "1" have ih: "set (str_nat (n div 10)) \<subseteq> set ''0123456789''" by simp
    have "n mod 10 < 10" by simp
    from digit_char [OF this] ih False show ?thesis
      by (subst str_nat.simps) simp
  qed
qed

lemma str_nat_no_leading_zero: "0 < n \<Longrightarrow> hd (str_nat n) \<noteq> CHR ''0''"
proof (induction n rule: str_nat.induct)
  case (1 n)
  show ?case
  proof (cases "n < 10")
    case True
    with "1.prems" show ?thesis
      using nonzero_digit_char [of n] by (subst str_nat.simps) simp
  next
    case False
    then have "0 < n div 10" by simp
    with "1.IH" False have "hd (str_nat (n div 10)) \<noteq> CHR ''0''" by simp
    with False show ?thesis
      by (subst str_nat.simps) (simp add: str_nat_nonempty)
  qed
qed


lemma str_nat_value: "foldl (\<lambda>acc c. 10 * acc + (of_char c - 48)) (0::nat) (str_nat n) = n"
  using decimal_str_nat [of n] by (simp add: decimal_def)

lemma slice_last_three: "slice_from xs (- 3) = drop (length xs - 3) xs"
  by (simp add: slice_from_def Let_def max_def nat_diff_distrib')

lemma sidebar_history: "history (sidebar construct w s) = history s"
  by (simp add: sidebar_def split: prod.splits option.splits)

lemma question_answer_history:
  "history (fst (question_answer genai now w s)) = history s \<or>
   (\<exists>r. history (fst (question_answer genai now w s)) = history s @ [r])"
  by (simp add: question_answer_def Let_def split: option.splits sum.splits)

lemma question_answer_records:
  assumes "rag_system s = Some rag" and "api_key s = Some key"
    and "query_input w \<noteq> []" and "key \<noteq> []"
    and "retrieve_similar_chunks rag (query_input w) (num_chunks w) = Inr cs"
  shows "question_answer genai now w s =
           (s\<lparr>history := history s @
                [\<lparr>query = query_input w,
                  answer = fst (generate_medical_answer genai (query_input w) cs key),
                  chunks_used = length cs, timestamp = now\<rparr>]\<rparr>,
            Inr \<lparr>shown_answer = Some (fst (generate_medical_answer genai (query_input w) cs key)),
                 shown_recent = recent_questions (history s @
                   [\<lparr>query = query_input w,
                     answer = fst (generate_medical_answer genai (query_input w) cs key),
                     chunks_used = length cs, timestamp = now\<rparr>])\<rparr>)"
  using assms by (simp add: question_answer_def Let_def)

lemma length_insert_ranked: "length (insert_ranked f x xs) = Suc (length xs)"
  by (induction xs) simp_all

lemma length_ranked: "length (ranked f xs) = length xs"
  by (induction xs) (simp_all add: length_insert_ranked)

lemma set_insert_ranked: "set (insert_ranked f x xs) = insert x (set xs)"
  by (induction xs) auto

lemma descending_insert_ranked:
  "sorted_wrt (\<lambda>a b. f b \<le> f a) xs \<Longrightarrow> sorted_wrt (\<lambda>a b. f b \<le> f a) (insert_ranked f x xs)"
  by (induction xs) (auto simp add: set_insert_ranked)

lemma descending_ranked: "sorted_wrt (\<lambda>a b. f b \<le> f a) (ranked f xs)"
  by (induction xs) (simp_all add: descending_insert_ranked)

subsection \<open>The grounded answerer\<close>

text \<open>
  C1, as the code has it. When the backend call raises, \<^verbatim>\<open>generate_medical_answer\<close> returns
  an ordinary string, \<^verbatim>\<open>Error generating answer: \<close> followed by the message of the
  exception. The result, trace included, is the one a backend gives that succeeds with
  that very text: the failure comes back as answer text, in the type of an answer.
\<close>

theorem failure_returned_as_answer_text:
  assumes "cs \<noteq> []"
    and "failing key model_name (build_prompt q cs) = Inl e"
    and "succeeding key model_name (build_prompt q cs) = Inr (''Error generating answer: '' @ str e)"
  shows "generate_medical_answer failing q cs key = generate_medical_answer succeeding q cs key
         \<and> fst (generate_medical_answer failing q cs key) = ''Error generating answer: '' @ str e"
  using assms by (simp add: generate_medical_answer_def error_prefix_def)

text \<open>An instance: a backend that times out against one that answers with the error text.\<close>

theorem failure_returned_as_answer_text_witness:
  "[note_allergy, note_asthma] \<noteq> [] \<and>
   generate_medical_answer timeout_backend ''treatment for allergy''
       [note_allergy, note_asthma] ''secret''
     = generate_medical_answer error_text_backend ''treatment for allergy''
         [note_allergy, note_asthma] ''secret''"
  using failure_returned_as_answer_text [of "[note_allergy, note_asthma]" timeout_backend
      "''secret''" "''treatment for allergy''" "Exception ''timeout''" error_text_backend]
  by (simp add: timeout_backend_def error_text_backend_def)

text \<open>
  C1 as stated does not hold: the answer of a failed call and the answer of a successful
  call can be the same string, so a caller cannot tell the failure from an answer.
\<close>

theorem failure_not_distinguishable:
  "fst (generate_medical_answer timeout_backend ''treatment for allergy'' [note_allergy] ''secret'')
     = fst (generate_medical_answer error_text_backend ''treatment for allergy'' [note_allergy]
         ''secret'')"
  by (simp add: generate_medical_answer_def timeout_backend_def error_text_backend_def
      error_prefix_def)


text \<open>
  C3. For a non-empty list of chunks the prompt sent to the backend is the fixed head, which
  tells the model to answer only from the provided context, then one block per chunk, in
  order, the first directly after the head and each further one after a blank line, then
  the query as it was given, then the fixed instructions, which tell the model not to make
  up information and to mention the specialty when relevant. Block \<open>i\<close> (from 0) is the
  label line with the number \<open>i + 1\<close> and the chunk's \<^verbatim>\<open>medical_specialty\<close>, followed by
  the chunk's content; the number is written in decimal digits, without a leading zero.
  The head and the instructions are given in full.
\<close>

theorem prompt_structure:
  assumes "cs \<noteq> []"
  shows \<open>\<exists>blocks.
           length blocks = length cs \<and>
           (\<forall>i<length cs.
              blocks ! i =
                ''--- MEDICAL NOTE '' @ str_nat (i + 1) @ '' (Specialty: ''
                  @ medical_specialty (metadata (cs ! i)) @ '') ---\<newline>'' @ content (cs ! i) \<and>
              str_nat (i + 1) \<noteq> [] \<and>
              set (str_nat (i + 1)) \<subseteq> set ''0123456789'' \<and>
              hd (str_nat (i + 1)) \<noteq> CHR ''0'' \<and>
              foldl (\<lambda>acc c. 10 * acc + (of_char c - 48)) (0::nat) (str_nat (i + 1)) = i + 1) \<and>
           snd (generate_medical_answer genai q cs key) =
             [GenerateContent key ''models/gemini-2.0-flash''
                (prompt_head @ hd blocks @ concat (map ((@) ''\<newline>\<newline>'') (tl blocks))
                   @ ''\<newline>\<newline>QUESTION: '' @ q @ prompt_instructions)] \<and>
           prompt_head =
             ''You are a medical research assistant. Answer the question based ONLY on the provided medical context from clinical notes.\<newline>''
             @ ''\<newline>''
             @ ''MEDICAL CONTEXT:\<newline>'' \<and>
           prompt_instructions =
             ''\<newline>''
             @ ''\<newline>''
             @ ''IMPORTANT INSTRUCTIONS:\<newline>''
             @ ''- Answer using ONLY the information from the medical context above\<newline>''
             @ ''- If the context doesn't contain relevant information, say "I cannot find specific information about this in the available medical records"\<newline>''
             @ ''- Be precise and medically accurate\<newline>''
             @ ''- Do not make up or hallucinate information\<newline>''
             @ ''- Mention which medical specialty the information comes from when relevant\<newline>''
             @ ''- Keep answers concise but informative\<newline>''
             @ ''\<newline>''
             @ ''ANSWER:'' \<and>
           sublist ''Answer the question based ONLY on the provided medical context'' prompt_head \<and>
           sublist ''- Do not make up or hallucinate information'' prompt_instructions \<and>
           sublist ''- Mention which medical specialty the information comes from when relevant''
             prompt_instructions\<close>
proof -
  let ?blocks = "map (\<lambda>(i, chunk). medical_note i chunk) (enumerate 0 cs)"
  have len: "length ?blocks = length cs" by simp
  have ne: "?blocks \<noteq> []" using assms len by (metis length_0_conv)
  have nth: "\<forall>i<length cs.
              ?blocks ! i =
                ''--- MEDICAL NOTE '' @ str_nat (i + 1) @ '' (Specialty: ''
                  @ medical_specialty (metadata (cs ! i)) @ '') ---\<newline>'' @ content (cs ! i) \<and>
              str_nat (i + 1) \<noteq> [] \<and>
              set (str_nat (i + 1)) \<subseteq> set ''0123456789'' \<and>
              hd (str_nat (i + 1)) \<noteq> CHR ''0'' \<and>
              foldl (\<lambda>acc c. 10 * acc + (of_char c - 48)) (0::nat) (str_nat (i + 1)) = i + 1"
  proof (intro allI impI conjI)
    fix i assume "i < length cs"
    then show "?blocks ! i =
                ''--- MEDICAL NOTE '' @ str_nat (i + 1) @ '' (Specialty: ''
                  @ medical_specialty (metadata (cs ! i)) @ '') ---\<newline>'' @ content (cs ! i)"
      using notes_nth [of i cs] by (simp add: medical_note_def)
  next
    fix i show "str_nat (i + 1) \<noteq> []" by (rule str_nat_nonempty)
  next
    fix i show "set (str_nat (i + 1)) \<subseteq> set ''0123456789''" by (rule str_nat_digits)
  next
    fix i show "hd (str_nat (i + 1)) \<noteq> CHR ''0''" by (rule str_nat_no_leading_zero) simp
  next
    fix i show "foldl (\<lambda>acc c. 10 * acc + (of_char c - 48)) (0::nat) (str_nat (i + 1)) = i + 1"
      by (rule str_nat_value)
  qed
  have ctx: "context_text cs = hd ?blocks @ concat (map ((@) ''\<newline>\<newline>'') (tl ?blocks))"
    unfolding context_text_def by (rule join_as_concat [OF ne])
  have call: "snd (generate_medical_answer genai q cs key) =
             [GenerateContent key ''models/gemini-2.0-flash''
                (prompt_head @ hd ?blocks @ concat (map ((@) ''\<newline>\<newline>'') (tl ?blocks))
                   @ ''\<newline>\<newline>QUESTION: '' @ q @ prompt_instructions)]"
    using assms
    by (simp add: generate_medical_answer_def build_prompt_def ctx prompt_question_def
        model_name_def Let_def)
  have hd_lit: "prompt_head =
             ''You are a medical research assistant. Answer the question based ONLY on the provided medical context from clinical notes.\<newline>''
             @ ''\<newline>''
             @ ''MEDICAL CONTEXT:\<newline>''"
    by (simp add: prompt_head_def)
  have ins_lit: \<open>prompt_instructions =
             ''\<newline>''
             @ ''\<newline>''
             @ ''IMPORTANT INSTRUCTIONS:\<newline>''
             @ ''- Answer using ONLY the information from the medical context above\<newline>''
             @ ''- If the context doesn't contain relevant information, say "I cannot find specific information about this in the available medical records"\<newline>''
             @ ''- Be precise and medically accurate\<newline>''
             @ ''- Do not make up or hallucinate information\<newline>''
             @ ''- Mention which medical specialty the information comes from when relevant\<newline>''
             @ ''- Keep answers concise but informative\<newline>''
             @ ''\<newline>''
             @ ''ANSWER:''\<close>
    by (simp add: prompt_instructions_def)
  from len nth call hd_lit ins_lit head_grounds instructions_no_fabrication
    instructions_cite_specialty
  show ?thesis by blast
qed

text \<open>
  An instance with two chunks: the blocks are labelled 1 and 2 and a blank line separates
  them.
\<close>

theorem prompt_structure_witness:
  "[note_allergy, note_asthma] \<noteq> [] \<and>
   snd (generate_medical_answer echo_backend ''treatment for allergy''
          [note_allergy, note_asthma] ''secret'') =
     [GenerateContent ''secret'' ''models/gemini-2.0-flash''
        (prompt_head
           @ ''--- MEDICAL NOTE 1 (Specialty: Allergy / Immunology) ---\<newline>Seasonal allergic rhinitis, treated with antihistamines.''
           @ ''\<newline>\<newline>''
           @ ''--- MEDICAL NOTE 2 (Specialty: Pulmonology) ---\<newline>Wheezing at night, started on an inhaled steroid.''
           @ ''\<newline>\<newline>QUESTION: treatment for allergy''
           @ prompt_instructions)]"
proof -
  have ne: "[note_allergy, note_asthma] \<noteq> []" by simp
  have l1: "str_nat (0 + 1) = ''1''" by code_simp
  have l2: "str_nat (1 + 1) = ''2''" by code_simp
  from prompt_structure [OF ne, of echo_backend "''treatment for allergy''" "''secret''"]
  obtain blocks where
    len: "length blocks = length [note_allergy, note_asthma]" and
    nth: "\<forall>i<length [note_allergy, note_asthma].
            blocks ! i =
              ''--- MEDICAL NOTE '' @ str_nat (i + 1) @ '' (Specialty: ''
                @ medical_specialty (metadata ([note_allergy, note_asthma] ! i)) @ '') ---\<newline>''
                @ content ([note_allergy, note_asthma] ! i) \<and>
            str_nat (i + 1) \<noteq> [] \<and>
            set (str_nat (i + 1)) \<subseteq> set ''0123456789'' \<and>
            hd (str_nat (i + 1)) \<noteq> CHR ''0'' \<and>
            foldl (\<lambda>acc c. 10 * acc + (of_char c - 48)) (0::nat) (str_nat (i + 1)) = i + 1" and
    call: "snd (generate_medical_answer echo_backend ''treatment for allergy''
              [note_allergy, note_asthma] ''secret'') =
             [GenerateContent ''secret'' ''models/gemini-2.0-flash''
                (prompt_head @ hd blocks @ concat (map ((@) ''\<newline>\<newline>'') (tl blocks))
                   @ ''\<newline>\<newline>QUESTION: '' @ ''treatment for allergy'' @ prompt_instructions)]"
    by blast
  have b0: "blocks ! 0 = ''--- MEDICAL NOTE 1 (Specialty: Allergy / Immunology) ---\<newline>Seasonal allergic rhinitis, treated with antihistamines.''"
    using nth [rule_format, of 0] l1 by (simp add: note_allergy_def)
  have b1: "blocks ! 1 = ''--- MEDICAL NOTE 2 (Specialty: Pulmonology) ---\<newline>Wheezing at night, started on an inhaled steroid.''"
    using nth [rule_format, of 1] l2 by (simp add: note_asthma_def)
  from len obtain x y where xy: "blocks = [x, y]"
    by (auto simp add: length_Suc_conv)
  from xy b0 have x: "x = ''--- MEDICAL NOTE 1 (Specialty: Allergy / Immunology) ---\<newline>Seasonal allergic rhinitis, treated with antihistamines.''"
    by simp
  from xy b1 have y: "y = ''--- MEDICAL NOTE 2 (Specialty: Pulmonology) ---\<newline>Wheezing at night, started on an inhaled steroid.''"
    by simp
  show ?thesis
    using call by (simp add: xy x y)
qed

text \<open>
  C5. With a non-empty list of chunks, when the backend call succeeds, the answer is the
  response text as the backend gave it, and the call built from the prompt is the only
  one issued.
\<close>

theorem answer_is_response_text:
  assumes "cs \<noteq> []"
    and "genai key model_name (build_prompt q cs) = Inr text"
  shows "generate_medical_answer genai q cs key =
           (text, [GenerateContent key model_name (build_prompt q cs)])"
  using assms by (simp add: generate_medical_answer_def)

theorem answer_is_response_text_witness:
  "[note_allergy] \<noteq> [] \<and>
   fst (generate_medical_answer echo_backend ''treatment for allergy'' [note_allergy] ''secret'')
     = ''Antihistamines are the usual treatment.''"
  using answer_is_response_text [of "[note_allergy]" echo_backend "''secret''"
      "''treatment for allergy''" "''Antihistamines are the usual treatment.''"]
  by (simp add: echo_backend_def)

text \<open>
  C10. With a non-empty list of chunks, an exception of the backend call does not leave
  \<^verbatim>\<open>generate_medical_answer\<close>: the function returns the string
  \<^verbatim>\<open>Error generating answer: \<close> followed by the message of the exception.
\<close>

theorem backend_exception_caught:
  assumes "cs \<noteq> []"
    and "genai key model_name (build_prompt q cs) = Inl e"
  shows "fst (generate_medical_answer genai q cs key) = ''Error generating answer: '' @ str e"
  using assms by (simp add: generate_medical_answer_def error_prefix_def)

theorem backend_exception_caught_witness:
  "[note_allergy] \<noteq> [] \<and>
   fst (generate_medical_answer timeout_backend ''treatment for allergy'' [note_allergy] ''secret'')
     = ''Error generating answer: timeout''"
  using backend_exception_caught [of "[note_allergy]" timeout_backend "''secret''"
      "''treatment for allergy''" "Exception ''timeout''"]
  by (simp add: timeout_backend_def)

subsection \<open>Initialisation\<close>

text \<open>
  C9. \<^verbatim>\<open>initialize_rag_system\<close> returns the handle and no error when the construction
  succeeds, and no handle and an error message when it raises: exactly one of the two
  components is \<^verbatim>\<open>None\<close>, and no exception leaves the function.
\<close>

theorem initialize_handle_xor_error:
  "((\<exists>rag. construct = Inr rag \<and> initialize_rag_system construct = (Some rag, None)) \<or>
    (\<exists>e. construct = Inl e \<and>
       initialize_rag_system construct
         = (None, Some (''Error initializing RAG system: '' @ str e))))
   \<and> (fst (initialize_rag_system construct) = None)
       \<noteq> (snd (initialize_rag_system construct) = None)"
  by (cases construct) (simp_all add: initialize_rag_system_def init_error_prefix_def)

subsection \<open>The history\<close>

text \<open>
  C6, as the code has it. When the question is answered and the backend call fails, the run
  shows the text \<^verbatim>\<open>Error generating answer: \<close> with the message of the exception as the
  answer, and the history receives one new record for that query, with that text as its
  answer.
\<close>

theorem failed_query_answer_and_record:
  assumes "rag_system (sidebar construct w s) = Some rag"
    and "api_key (sidebar construct w s) = Some key"
    and "query_input w \<noteq> []" and "key \<noteq> []"
    and "retrieve_similar_chunks rag (query_input w) (num_chunks w) = Inr cs"
    and "cs \<noteq> []"
    and "genai key model_name (build_prompt (query_input w) cs) = Inl e"
  shows "\<exists>pg. snd (script_run construct genai now w s) = Inr pg \<and>
           shown_answer pg = Some (''Error generating answer: '' @ str e) \<and>
           history (fst (script_run construct genai now w s)) =
             history s @
               [\<lparr>query = query_input w, answer = ''Error generating answer: '' @ str e,
                 chunks_used = length cs, timestamp = now\<rparr>]"
proof -
  have ans: "fst (generate_medical_answer genai (query_input w) cs key)
               = ''Error generating answer: '' @ str e"
    using assms(6,7) by (simp add: generate_medical_answer_def error_prefix_def)
  show ?thesis
    using assms(1-5) ans sidebar_history [of construct w s]
    by (simp add: script_run_def question_answer_records)
qed

theorem failed_query_answer_and_record_witness:
  "\<exists>pg. snd (script_run (Inl (Exception ''missing index'')) timeout_backend 30 asking ready_state)
          = Inr pg \<and>
        shown_answer pg = Some ''Error generating answer: timeout'' \<and>
        history (fst (script_run (Inl (Exception ''missing index'')) timeout_backend 30 asking
                        ready_state)) =
          [\<lparr>query = ''treatment for allergy'', answer = ''Error generating answer: timeout'',
            chunks_used = 1, timestamp = 30\<rparr>]"
  using failed_query_answer_and_record [of "Inl (Exception ''missing index'')" asking ready_state
     "\<lparr>retrieve_similar_chunks = fixed_retrieve\<rparr>" "''secret''" "[note_allergy]" timeout_backend
     "Exception ''timeout''" 30]
  by (simp add: sidebar_def asking_def ready_state_def fixed_retrieve_def timeout_backend_def)

text \<open>
  C6 as stated does not hold: a run whose backend call times out, started with an empty
  history, ends with a history of one record, and the page shows the error text as the
  answer.
\<close>

theorem failed_query_is_logged:
  "history (fst (script_run (Inl (Exception ''missing index'')) timeout_backend 30 asking
                   ready_state)) =
     [\<lparr>query = ''treatment for allergy'', answer = ''Error generating answer: timeout'',
       chunks_used = 1, timestamp = 30\<rparr>]
   \<and> snd (script_run (Inl (Exception ''missing index'')) timeout_backend 30 asking ready_state) =
     Inr \<lparr>shown_answer = Some ''Error generating answer: timeout'',
          shown_recent =
            [\<lparr>query = ''treatment for allergy'', answer = ''Error generating answer: timeout'',
              chunks_used = 1, timestamp = 30\<rparr>]\<rparr>"
  by (simp add: script_run_def sidebar_def question_answer_def asking_def ready_state_def
      fixed_retrieve_def generate_medical_answer_def timeout_backend_def error_prefix_def
      recent_questions_def slice_from_def Let_def)

text \<open>
  C7, as the code has it. The recent view is fixed at three: for a history of \<open>N\<close> records
  it is the last \<open>min 3 N\<close> of them, the most recent first, and so never more than \<open>N\<close>.
\<close>

theorem recent_questions_last_three:
  "recent_questions hist = take (min 3 (length hist)) (rev hist) \<and>
   length (recent_questions hist) = min 3 (length hist) \<and>
   length (recent_questions hist) \<le> length hist"
  by (auto simp add: recent_questions_def slice_last_three rev_drop min_def)

text \<open>
  C7 as stated does not hold for a requested count other than three: of two records the
  view shows both, where one was asked for.
\<close>

theorem recent_ignores_requested_count:
  "recent_questions [first_record, second_record]
     \<noteq> take (min 1 (length [first_record, second_record])) (rev [first_record, second_record])
   \<and> length (recent_questions [first_record, second_record]) = 2"
  by (simp add: recent_questions_def slice_from_def)

text \<open>
  C8. A run of the script leaves the records already in the history as they are and in
  place, and adds at most one. When the run answers a question, the history is the old one
  followed by exactly one record, which carries the query, the answer, the number of chunks
  retrieved and the time of the run.
\<close>

theorem history_append_only:
  "prefix (history s) (history (fst (script_run construct genai now w s))) \<and>
   length (history (fst (script_run construct genai now w s))) \<le> length (history s) + 1 \<and>
   (rag_system (sidebar construct w s) = Some rag \<and> api_key (sidebar construct w s) = Some key \<and>
    query_input w \<noteq> [] \<and> key \<noteq> [] \<and>
    retrieve_similar_chunks rag (query_input w) (num_chunks w) = Inr cs \<longrightarrow>
      history (fst (script_run construct genai now w s)) =
        history s @
          [\<lparr>query = query_input w,
            answer = fst (generate_medical_answer genai (query_input w) cs key),
            chunks_used = length cs, timestamp = now\<rparr>])"
proof -
  let ?s1 = "sidebar construct w s"
  have h: "history ?s1 = history s" by (rule sidebar_history)
  have step: "history (fst (question_answer genai now w ?s1)) = history ?s1 \<or>
     (\<exists>r. history (fst (question_answer genai now w ?s1)) = history ?s1 @ [r])"
    by (rule question_answer_history)
  have a: "prefix (history s) (history (fst (script_run construct genai now w s)))"
    using step h by (auto simp add: script_run_def)
  have b: "length (history (fst (script_run construct genai now w s))) \<le> length (history s) + 1"
    using step h by (auto simp add: script_run_def)
  have c: "rag_system ?s1 = Some rag \<and> api_key ?s1 = Some key \<and>
    query_input w \<noteq> [] \<and> key \<noteq> [] \<and>
    retrieve_similar_chunks rag (query_input w) (num_chunks w) = Inr cs \<longrightarrow>
      history (fst (script_run construct genai now w s)) =
        history s @
          [\<lparr>query = query_input w,
            answer = fst (generate_medical_answer genai (query_input w) cs key),
            chunks_used = length cs, timestamp = now\<rparr>]"
    using h by (auto simp add: script_run_def question_answer_records)
  from a b c show ?thesis by blast
qed

theorem history_append_only_witness:
  "history (fst (script_run (Inl (Exception ''missing index'')) echo_backend 30 asking
      (ready_state\<lparr>history := [first_record]\<rparr>))) =
     [first_record,
      \<lparr>query = ''treatment for allergy'', answer = ''Antihistamines are the usual treatment.'',
        chunks_used = 1, timestamp = 30\<rparr>]"
  using history_append_only [of "ready_state\<lparr>history := [first_record]\<rparr>"
      "Inl (Exception ''missing index'')" echo_backend 30 asking
      "\<lparr>retrieve_similar_chunks = fixed_retrieve\<rparr>" "''secret''" "[note_allergy]"]
  by (simp add: sidebar_def asking_def ready_state_def fixed_retrieve_def
      generate_medical_answer_def echo_backend_def)

subsection \<open>The retriever\<close>

text \<open>
  C4. On a corpus whose counts match, for a query vector of the index's dimension and
  \<open>k \<ge> 1\<close>, \<open>retrieve\<close> returns a sequence of exactly \<open>min k (chunk_count store)\<close> results,
  hence at most \<open>k\<close>, whose similarity scores never increase along the sequence.
\<close>

theorem retrieve_length_and_order:
  assumes "counts_match store"
    and "length query_vector = vector_dimension store"
    and "1 \<le> k"
  shows "\<exists>results. retrieve sim store query_vector k = Inr results \<and>
           length results = min (nat k) (chunk_count store) \<and>
           int (length results) \<le> k \<and>
           sorted_wrt (\<lambda>a b. result_similarity_score b \<le> result_similarity_score a) results"
proof -
  let ?score = "\<lambda>i. sim query_vector (index_vectors store ! i)"
  let ?nearest = "take (nat k) (ranked ?score [0..<length (index_vectors store)])"
  let ?results = "map (\<lambda>i. \<lparr>result_content = chunk_content (chunks store ! i),
                            result_metadata = chunks_metadata store ! i,
                            result_similarity_score = ?score i\<rparr>) ?nearest"
  have r: "retrieve sim store query_vector k = Inr ?results"
    using assms(2) by (simp add: retrieve_def Let_def)
  have n: "length (index_vectors store) = chunk_count store"
    using assms(1) by (simp add: counts_match_def chunk_count_def)
  have len: "length ?results = min (nat k) (chunk_count store)"
    by (simp add: length_ranked n min.commute)
  have le: "int (length ?results) \<le> k"
    using assms(3) len by linarith
  have "sorted_wrt (\<lambda>a b. ?score b \<le> ?score a) ?nearest"
    by (rule sorted_wrt_take) (rule descending_ranked)
  then have ord:
    "sorted_wrt (\<lambda>a b. result_similarity_score b \<le> result_similarity_score a) ?results"
    by (simp add: sorted_wrt_map)
  from r len le ord show ?thesis by blast
qed

theorem retrieve_length_and_order_witness:
  "counts_match small_corpus \<and> length [4::int] = vector_dimension small_corpus \<and>
   (\<exists>results. retrieve closeness small_corpus [4] 2 = Inr results \<and>
           length results = min (nat 2) (chunk_count small_corpus) \<and>
           int (length results) \<le> 2 \<and>
           sorted_wrt (\<lambda>a b. result_similarity_score b \<le> result_similarity_score a) results)"
proof -
  have a: "counts_match small_corpus" by (simp add: counts_match_def small_corpus_def)
  have b: "length [4::int] = vector_dimension small_corpus" by (simp add: small_corpus_def)
  have c: "(1::int) \<le> 2" by simp
  from retrieve_length_and_order [OF a b c] a b show ?thesis by blast
qed

end
